theory Spec2Isabelle
  imports Complex_Main "HOL-Library.Char_ord" "HOL-Library.List_Lexorder"
    "HOL-Library.Product_Lexorder"
begin

section \<open>Part identity normalizer (logic.py, sanitize\_part\_number)\<close>

text \<open>
  Strings are byte strings (\<open>char list\<close>). Python's \<open>str.upper\<close> is modelled on the
  ASCII letters, every other byte is left as it is; \<open>str.strip\<close> removes the ASCII
  characters for which \<open>str.isspace\<close> holds (tab, line feed, vertical tab, form feed,
  carriage return, the four separators 0x1C to 0x1F and the blank).
\<close>

definition upper_char :: "char \<Rightarrow> char" where
  "upper_char c =
     (case map_of (zip ''abcdefghijklmnopqrstuvwxyz'' ''ABCDEFGHIJKLMNOPQRSTUVWXYZ'') c of
        Some u \<Rightarrow> u
      | None \<Rightarrow> c)"

definition str_upper :: "string \<Rightarrow> string" where
  "str_upper s = map upper_char s"

text \<open>\<open>s.replace(old, new)\<close> for a pattern \<open>old\<close> of one character.\<close>

definition str_replace :: "char \<Rightarrow> string \<Rightarrow> string \<Rightarrow> string" where
  "str_replace old new s = concat (map (\<lambda>c. if c = old then new else [c]) s)"

definition py_isspace :: "char \<Rightarrow> bool" where
  "py_isspace c \<longleftrightarrow>
     c \<in> set [CHR 0x09, CHR 0x0A, CHR 0x0B, CHR 0x0C, CHR 0x0D,
              CHR 0x1C, CHR 0x1D, CHR 0x1E, CHR 0x1F, CHR '' '']"

definition str_strip :: "string \<Rightarrow> string" where
  "str_strip s = rev (dropWhile py_isspace (rev (dropWhile py_isspace s)))"

text \<open>
  The argument is \<open>None\<close> for Python's \<open>None\<close>. \<open>not part_number\<close> holds for
  \<open>None\<close> and for the empty string. The \<open>for\<close> loop over the three characters is the
  \<open>foldl\<close>.
\<close>

definition sanitize_part_number :: "string option \<Rightarrow> string" where
  "sanitize_part_number part_number =
     (case part_number of
        None \<Rightarrow> []
      | Some raw \<Rightarrow>
          if raw = [] then []
          else
            let s = str_upper raw;
                s = foldl (\<lambda>s c. str_replace c [] s) s [CHR ''*'', CHR ''@'', CHR ''+''];
                s = str_replace (CHR ''O'') ''0'' s
            in str_strip s)"

text \<open>
  The normalizer as the specification words it: uppercase; strip the literal characters
  \<open>*\<close>, \<open>@\<close>, \<open>+\<close>; replace every letter O with the digit 0; trim.
\<close>

definition normalize_spec :: "string \<Rightarrow> string" where
  "normalize_spec raw =
     str_strip
       (map (\<lambda>c. if c = CHR ''O'' then CHR ''0'' else c)
          (filter (\<lambda>c. c \<noteq> CHR ''*'' \<and> c \<noteq> CHR ''@'' \<and> c \<noteq> CHR ''+'')
             (map upper_char raw)))"

section \<open>Python floats\<close>

text \<open>
  A Python float is a binary64 number: zero or a rational \<open>m * 2 ^ e\<close> with an integer
  \<open>m\<close> of at most 53 bits and \<open>-1074 \<le> e \<le> 971\<close>. \<open>py_float\<close> is the rounding
  that \<open>float(x)\<close> applies to a decimal and that every float operation applies to its
  exact result: to the nearest such number, a tie to the even \<open>m\<close>. The scaling loops
  bring the magnitude into \<open>[2 ^ 52, 2 ^ 53)\<close> and stop at the smallest and at the
  largest exponent; infinities and NaN (a magnitude that reaches \<open>2 ^ 1024\<close>) are
  outside the model.
\<close>

definition pow2 :: "int \<Rightarrow> rat" where
  "pow2 e = (if 0 \<le> e then 2 ^ nat e else 1 / 2 ^ nat (- e))"

function scale_down :: "rat \<Rightarrow> int \<Rightarrow> rat \<times> int" where
  "scale_down a e = (if 2 ^ 53 \<le> a \<and> e < 971 then scale_down (a / 2) (e + 1) else (a, e))"
  by pat_completeness auto
termination
  by (relation "measure (\<lambda>(a, e). nat (971 - e))") auto

declare scale_down.simps [simp del]

function scale_up :: "rat \<Rightarrow> int \<Rightarrow> rat \<times> int" where
  "scale_up a e = (if a < 2 ^ 52 \<and> - 1074 < e then scale_up (a * 2) (e - 1) else (a, e))"
  by pat_completeness auto
termination
  by (relation "measure (\<lambda>(a, e). nat (e + 1074))") auto

declare scale_up.simps [simp del]

text \<open>To the nearest integer, a tie to the even one.\<close>

definition round_half_even :: "rat \<Rightarrow> int" where
  "round_half_even x =
     (if x - of_int \<lfloor>x\<rfloor> < 1 / 2 then \<lfloor>x\<rfloor>
      else if 1 / 2 < x - of_int \<lfloor>x\<rfloor> then \<lfloor>x\<rfloor> + 1
      else if even \<lfloor>x\<rfloor> then \<lfloor>x\<rfloor> else \<lfloor>x\<rfloor> + 1)"

definition float_scaled :: "rat \<Rightarrow> rat \<times> int" where
  "float_scaled a = (if 2 ^ 53 \<le> a then scale_down a 0 else scale_up a 0)"

definition py_float :: "rat \<Rightarrow> rat" where
  "py_float x =
     (if x = 0 then 0
      else sgn x * of_int (round_half_even (fst (float_scaled \<bar>x\<bar>)))
             * pow2 (snd (float_scaled \<bar>x\<bar>)))"

text \<open>
  Addition, multiplication and division of floats, and \<open>round(x, 2)\<close> on a float: the
  exact value of \<open>x\<close> is rounded to the nearest hundredth (a tie to the even one) and the
  result is read back as a float.
\<close>

definition float_add :: "rat \<Rightarrow> rat \<Rightarrow> rat" where
  "float_add x y = py_float (x + y)"

definition float_mul :: "rat \<Rightarrow> rat \<Rightarrow> rat" where
  "float_mul x y = py_float (x * y)"

definition float_div :: "rat \<Rightarrow> rat \<Rightarrow> rat" where
  "float_div x y = py_float (x / y)"

definition py_round2 :: "rat \<Rightarrow> rat" where
  "py_round2 x = py_float (of_int (round_half_even (x * 100)) / 100)"

section \<open>The persistent store (database.py, init\_db)\<close>

text \<open>
  The tables of \<open>init_db\<close> as lists of rows, in the order a sequential scan returns
  them; an \<open>INSERT\<close> appends. \<open>SERIAL\<close> keys come from the counters of the store.
  Quantities are Python integers. A price is a rational: a \<open>NUMERIC\<close> value read
  from the store is a decimal, with its exact value; a price the code computes or receives
  as a Python float has the value of that float, also once it is written to the store (the
  driver writes the shortest decimal that reads back as the same float). The
  \<open>timestamp\<close> columns play no role in the operations below and are left out. A nullable text column the operations test for \<open>NULL\<close> is an \<open>option\<close>;
  \<open>free_stock\<close>, \<open>qty\<close> and \<open>price\<close> hold a value in every row (the data model of
  the specification), so the arithmetic on them raises nothing.
\<close>

record stock_item =
  s_part_number :: string
  s_description :: "string option"
  s_free_stock :: int
  s_price :: rat
  s_stock_type :: string
  s_is_active :: bool
  s_superseded :: "string option"

record cart_line =
  c_id :: nat
  c_user_id :: int
  c_part_number :: string
  c_description :: "string option"
  c_qty :: int
  c_price :: rat
  c_supersedes :: "string option"

record order_header =
  o_order_id :: nat
  o_user_id :: int
  o_total_price :: rat
  o_order_status :: string
  o_stock_type :: string

record order_item =
  i_id :: nat
  i_order_id :: nat
  i_part_number :: string
  i_description :: "string option"
  i_qty :: int
  i_requested_qty :: int
  i_available_qty :: int
  i_price :: rat
  i_supersedes :: "string option"

record db =
  parts_stock :: "stock_item list"
  cart :: "cart_line list"
  orders :: "order_header list"
  order_items :: "order_item list"
  next_cart_id :: nat
  next_order_id :: nat
  next_item_id :: nat

text \<open>
  \<open>WHERE part_number = :pn AND stock_type = :stype\<close>, as \<open>create_order\<close> and
  \<open>restore_stock_from_order\<close> write it: the condition does not look at \<open>is_active\<close>.
\<close>

definition stock_match :: "string \<Rightarrow> string \<Rightarrow> stock_item \<Rightarrow> bool" where
  "stock_match pn stype r \<longleftrightarrow> s_part_number r = pn \<and> s_stock_type r = stype"

text \<open>
  \<open>UPDATE parts_stock SET free_stock = free_stock + :delta WHERE part_number = :pn AND
  stock_type = :stype\<close>: every row that satisfies the condition is updated.
\<close>

definition update_free_stock ::
  "string \<Rightarrow> string \<Rightarrow> int \<Rightarrow> stock_item list \<Rightarrow> stock_item list" where
  "update_free_stock pn stype delta rows =
     map (\<lambda>r. if stock_match pn stype r then r\<lparr>s_free_stock := s_free_stock r + delta\<rparr> else r)
       rows"

section \<open>Stock management (logic.py, upload\_parts\_stock and reset\_stock)\<close>

text \<open>
  A row of the uploaded frame after the renaming of its columns. The upload marks the
  active rows of the stock type inactive (they stay in the table) and appends the new rows
  as active.
\<close>

record upload_row =
  u_part_number :: string
  u_description :: "string option"
  u_stock :: int
  u_price :: rat
  u_superseded :: "string option"

definition upload_parts_stock :: "db \<Rightarrow> upload_row list \<Rightarrow> string \<Rightarrow> db" where
  "upload_parts_stock d df_parts stock_type =
     (let old = map (\<lambda>r. if s_stock_type r = stock_type \<and> s_is_active r
                           then r\<lparr>s_is_active := False\<rparr> else r) (parts_stock d);
          new = map (\<lambda>u. \<lparr>s_part_number = str_strip (u_part_number u),
                           s_description = u_description u,
                           s_free_stock = u_stock u,
                           s_price = u_price u,
                           s_stock_type = stock_type,
                           s_is_active = True,
                           s_superseded = u_superseded u\<rparr>) df_parts
      in d\<lparr>parts_stock := old @ new\<rparr>)"

definition reset_stock :: "db \<Rightarrow> string \<Rightarrow> db" where
  "reset_stock d stock_type =
     d\<lparr>parts_stock := filter (\<lambda>r. s_stock_type r \<noteq> stock_type) (parts_stock d)\<rparr>"

section \<open>Cart management (logic.py, add\_to\_cart\_db)\<close>

text \<open>
  \<open>fetchone\<close> takes the first row of the result. The \<open>UPDATE\<close> is by \<open>id\<close>, the
  \<open>INSERT\<close> draws the next value of the key.
\<close>

definition add_to_cart_db ::
  "db \<Rightarrow> int \<Rightarrow> string option \<Rightarrow> string option \<Rightarrow> int \<Rightarrow> rat \<Rightarrow> string option \<Rightarrow> db" where
  "add_to_cart_db d user_id part_number description qty price supersedes =
     (let pn = sanitize_part_number part_number;
          curr = find (\<lambda>c. c_user_id c = user_id \<and> c_part_number c = pn) (cart d)
      in case curr of
           Some row \<Rightarrow>
             let new_qty = c_qty row + qty
             in d\<lparr>cart := map (\<lambda>c. if c_id c = c_id row then c\<lparr>c_qty := new_qty\<rparr> else c)
                              (cart d)\<rparr>
         | None \<Rightarrow>
             d\<lparr>cart := cart d @
                    [\<lparr>c_id = next_cart_id d, c_user_id = user_id, c_part_number = pn,
                      c_description = description, c_qty = qty, c_price = price,
                      c_supersedes = supersedes\<rparr>],
               next_cart_id := Suc (next_cart_id d)\<rparr>)"

section \<open>Order processing (logic.py, create\_order)\<close>

text \<open>An element of \<open>items\<close>: the dictionary the caller builds for one order line.\<close>

record order_request =
  r_part_number :: string
  r_description :: "string option"
  r_qty :: int
  r_price :: rat
  r_supersedes :: "string option"

text \<open>
  The body of the loop over \<open>items\<close>. The state of the loop is the store together with
  \<open>total_alloc_price\<close>. The price of an item is a Python float (the bulk caller
  passes \<open>float(row['Price'])\<close>), so \<open>allocated_qty * item['price']\<close> converts the integer
  to a float and multiplies in floats, and \<open>+=\<close> adds in floats.
\<close>

definition commit_item ::
  "nat \<Rightarrow> string \<Rightarrow> db \<times> rat \<Rightarrow> order_request \<Rightarrow> db \<times> rat" where
  "commit_item order_id stock_type acc item =
     (let d = fst acc;
          total_alloc_price = snd acc;
          row = find (stock_match (r_part_number item) stock_type) (parts_stock d);
          current_stock = (case row of None \<Rightarrow> 0 | Some r \<Rightarrow> s_free_stock r);
          requested_qty = r_qty item;
          allocated_qty = min requested_qty current_stock;
          d = (if allocated_qty > 0
               then d\<lparr>parts_stock :=
                        update_free_stock (r_part_number item) stock_type (- allocated_qty)
                          (parts_stock d)\<rparr>
               else d);
          d = d\<lparr>order_items := order_items d @
                   [\<lparr>i_id = next_item_id d, i_order_id = order_id,
                     i_part_number = r_part_number item,
                     i_description = r_description item,
                     i_qty = allocated_qty,
                     i_requested_qty = requested_qty,
                     i_available_qty = current_stock,
                     i_price = r_price item,
                     i_supersedes = r_supersedes item\<rparr>],
                 next_item_id := Suc (next_item_id d)\<rparr>
      in (d, float_add total_alloc_price
                (float_mul (py_float (of_int allocated_qty)) (r_price item))))"

text \<open>
  The transaction of \<open>create_order\<close>; the result is the new store and the \<open>order_id\<close>
  of the pair \<open>(True, order_id)\<close>. A new header has the column default
  \<open>'Pending'\<close> as its status. The \<open>except\<close> branch takes a failure of the storage
  layer, which the model does not have.
\<close>

definition create_order :: "db \<Rightarrow> int \<Rightarrow> order_request list \<Rightarrow> string \<Rightarrow> db \<times> nat" where
  "create_order d user_id items stock_type =
     (let order_id = next_order_id d;
          d = d\<lparr>orders := orders d @
                   [\<lparr>o_order_id = order_id, o_user_id = user_id, o_total_price = 0,
                     o_order_status = ''Pending'', o_stock_type = stock_type\<rparr>],
                 next_order_id := Suc order_id\<rparr>;
          acc = foldl (commit_item order_id stock_type) (d, 0) items;
          d = fst acc;
          d = d\<lparr>orders := map (\<lambda>h. if o_order_id h = order_id
                                     then h\<lparr>o_total_price := snd acc\<rparr> else h) (orders d)\<rparr>;
          d = d\<lparr>cart := filter (\<lambda>c. c_user_id c \<noteq> user_id) (cart d)\<rparr>
      in (d, order_id))"

section \<open>Order ledger reversal (logic.py, restore\_stock\_from\_order and its callers)\<close>

definition restore_stock_from_order :: "db \<Rightarrow> nat \<Rightarrow> db" where
  "restore_stock_from_order d order_id =
     (let items = filter (\<lambda>i. i_order_id i = order_id) (order_items d);
          header = find (\<lambda>h. o_order_id h = order_id) (orders d)
      in case header of
           None \<Rightarrow> d
         | Some header \<Rightarrow>
             foldl (\<lambda>d item.
                      if i_qty item > 0
                      then d\<lparr>parts_stock :=
                               update_free_stock (i_part_number item) (o_stock_type header)
                                 (i_qty item) (parts_stock d)\<rparr>
                      else d)
               d items)"

definition update_order_status :: "db \<Rightarrow> nat \<Rightarrow> string \<Rightarrow> db" where
  "update_order_status d order_id status =
     (let curr = find (\<lambda>h. o_order_id h = order_id) (orders d);
          d = (case curr of
                 None \<Rightarrow> d
               | Some c \<Rightarrow>
                   if o_order_status c \<noteq> ''Rejected'' \<and> status = ''Rejected''
                   then restore_stock_from_order d order_id
                   else d)
      in d\<lparr>orders := map (\<lambda>h. if o_order_id h = order_id
                                then h\<lparr>o_order_status := status\<rparr> else h) (orders d)\<rparr>)"

definition delete_order :: "db \<Rightarrow> nat \<Rightarrow> db" where
  "delete_order d order_id =
     (let d = restore_stock_from_order d order_id;
          d = d\<lparr>order_items := filter (\<lambda>i. i_order_id i \<noteq> order_id) (order_items d)\<rparr>
      in d\<lparr>orders := filter (\<lambda>h. o_order_id h \<noteq> order_id) (orders d)\<rparr>)"

definition delete_all_users_history :: "db \<Rightarrow> db" where
  "delete_all_users_history d =
     (let sel = filter (\<lambda>h. o_order_status h \<noteq> ''Rejected'') (orders d);
          d = foldl (\<lambda>d row. restore_stock_from_order d (o_order_id row)) d sel
      in d\<lparr>order_items := [], orders := []\<rparr>)"

definition delete_all_orders :: "db \<Rightarrow> string \<Rightarrow> db" where
  "delete_all_orders d stock_type =
     (let sel = filter (\<lambda>h. o_stock_type h = stock_type \<and> o_order_status h \<noteq> ''Rejected'')
                  (orders d);
          d = foldl (\<lambda>d row. restore_stock_from_order d (o_order_id row)) d sel;
          gone = map o_order_id (filter (\<lambda>h. o_stock_type h = stock_type) (orders d));
          d = d\<lparr>order_items := filter (\<lambda>i. i_order_id i \<notin> set gone) (order_items d)\<rparr>
      in d\<lparr>orders := filter (\<lambda>h. o_stock_type h \<noteq> stock_type) (orders d)\<rparr>)"

section \<open>Example stores\<close>

text \<open>The example of the specification: ten units requested against a stock of four.\<close>

definition order_example_db :: db where
  "order_example_db =
     \<lparr>parts_stock =
        [\<lparr>s_part_number = ''P100'', s_description = Some ''Bracket'', s_free_stock = 4,
          s_price = 5 / 2, s_stock_type = ''parts_stock'', s_is_active = True,
          s_superseded = None\<rparr>],
      cart = [], orders = [], order_items = [],
      next_cart_id = 1, next_order_id = 1, next_item_id = 1\<rparr>"

definition order_example_items :: "order_request list" where
  "order_example_items =
     [\<lparr>r_part_number = ''P100'', r_description = Some ''Bracket'', r_qty = 10,
       r_price = 5 / 2, r_supersedes = None\<rparr>]"

text \<open>A cart with two lines of user 7.\<close>

definition cart_example_line :: cart_line where
  "cart_example_line =
     \<lparr>c_id = 1, c_user_id = 7, c_part_number = ''AB012'', c_description = Some ''Bracket'',
      c_qty = 2, c_price = 5 / 2, c_supersedes = None\<rparr>"

definition cart_example_db :: db where
  "cart_example_db =
     \<lparr>parts_stock = [],
      cart = [cart_example_line,
              \<lparr>c_id = 2, c_user_id = 7, c_part_number = ''X9'', c_description = Some ''Washer'',
               c_qty = 1, c_price = 1, c_supersedes = Some ''X8''\<rparr>],
      orders = [], order_items = [],
      next_cart_id = 3, next_order_id = 1, next_item_id = 1\<rparr>"

text \<open>
  Three order lines of one unit each at the price \<open>float('0.1')\<close>, against a stock of
  100.
\<close>

definition tenth_example_db :: db where
  "tenth_example_db =
     \<lparr>parts_stock =
        [\<lparr>s_part_number = ''P100'', s_description = Some ''Bracket'', s_free_stock = 100,
          s_price = 1 / 10, s_stock_type = ''parts_stock'', s_is_active = True,
          s_superseded = None\<rparr>],
      cart = [], orders = [], order_items = [],
      next_cart_id = 1, next_order_id = 1, next_item_id = 1\<rparr>"

definition tenth_example_items :: "order_request list" where
  "tenth_example_items =
     replicate 3
       \<lparr>r_part_number = ''P100'', r_description = Some ''Bracket'', r_qty = 1,
        r_price = py_float (1 / 10), r_supersedes = None\<rparr>"

text \<open>
  The quantity an order gives back to a part: the sum of \<open>qty\<close> over its items of that
  part number with \<open>qty > 0\<close>.
\<close>

definition restored_qty :: "db \<Rightarrow> nat \<Rightarrow> string \<Rightarrow> int" where
  "restored_qty d order_id pn =
     sum_list (map i_qty
       (filter (\<lambda>i. i_order_id i = order_id \<and> i_part_number i = pn \<and> 0 < i_qty i)
          (order_items d)))"

text \<open>The store after the example order has been committed (order 1, four units allocated).\<close>

definition rejected_example_db :: db where
  "rejected_example_db =
     fst (create_order order_example_db 7 order_example_items ''parts_stock'')"

text \<open>
  The store after two catalog uploads for the same stock type: the first generation of
  part P100 (stock 10) has been made inactive by the second upload (stock 3).
\<close>

definition generations_db :: db where
  "generations_db =
     upload_parts_stock
       (upload_parts_stock
          \<lparr>parts_stock = [], cart = [], orders = [], order_items = [],
           next_cart_id = 1, next_order_id = 1, next_item_id = 1\<rparr>
          [\<lparr>u_part_number = ''P100'', u_description = Some ''Bracket'', u_stock = 10,
            u_price = 5 / 2, u_superseded = None\<rparr>] ''parts_stock'')
       [\<lparr>u_part_number = ''P100'', u_description = Some ''Bracket'', u_stock = 3,
         u_price = 5 / 2, u_superseded = None\<rparr>] ''parts_stock''"

section \<open>Bulk processing (logic.py, process\_bulk\_enquiry)\<close>

text \<open>
  The uploaded frame after the normalisation of its headers: a serial number, the part
  number as typed and the requested quantity in every row. Serial numbers are integers
  (an integer column, or the generated \<open>1..n\<close>). The frame library is modelled by what
  the source relies on: \<open>sort_values\<close> is taken as a stable sort (for the first sort,
  on one key, this matters for rows of equal serial number only); the left \<open>merge\<close> keeps the
  order of the left rows and gives one row per matching stock row, in stock order, or one
  row without stock columns when nothing matches; a column that no row brought does not
  exist, and reading it raises \<open>KeyError\<close>.
\<close>

datatype error = KeyError string | TypeError

text \<open>
  The \<open>S.No\<close> of an output row is the number itself in an "Invalid Part" row and the
  string \<open>str(sno)\<close>, or that string followed by \<open>.1\<close>, in every other row.
\<close>

datatype sno_val = SNum int | SStr string

record bulk_row =
  b_sno :: int
  b_part_number :: string
  b_qty :: int

record merged_row =
  m_sno :: int
  m_original_part_number :: string
  m_qty :: int
  m_stock :: "stock_item option"

record out_row =
  out_sno :: sno_val
  out_original_part_number :: string
  out_description :: "string option"
  out_price :: rat
  out_available_qty :: int
  out_requested_qty :: int
  out_allocated_qty :: int
  out_back_order :: int
  out_no_record :: bool
  out_status :: string
  out_allocated_part_number :: "string option"
  out_supersedes :: "string option"

text \<open>Python's \<open>str\<close> of an integer.\<close>

definition digit_char :: "nat \<Rightarrow> char" where
  "digit_char n = ''0123456789'' ! n"

function str_nat :: "nat \<Rightarrow> string" where
  "str_nat n = (if n < 10 then [digit_char n] else str_nat (n div 10) @ [digit_char (n mod 10)])"
  by pat_completeness auto
termination
  by (relation "measure id") auto

declare str_nat.simps [simp del]

definition str_int :: "int \<Rightarrow> string" where
  "str_int i = (if i < 0 then CHR ''-'' # str_nat (nat (- i)) else str_nat (nat i))"

text \<open>\<open>str(x).replace("-", "").strip()\<close> on a stock row's part number.\<close>

definition match_key :: "stock_item \<Rightarrow> string" where
  "match_key r = str_strip (str_replace (CHR ''-'') [] (s_part_number r))"

text \<open>Formatting a nullable text inside an f-string.\<close>

definition str_of_option :: "string option \<Rightarrow> string" where
  "str_of_option x = (case x of None \<Rightarrow> ''None'' | Some s \<Rightarrow> s)"

text \<open>The rows the left merge produces for one uploaded row.\<close>

definition merge_row :: "stock_item list \<Rightarrow> bulk_row \<Rightarrow> merged_row list" where
  "merge_row stock b =
     (let lookup_part_number =
            str_replace (CHR ''-'') [] (sanitize_part_number (Some (b_part_number b)));
          hits = filter (\<lambda>r. match_key r = lookup_part_number) stock
      in if hits = []
         then [\<lparr>m_sno = b_sno b, m_original_part_number = b_part_number b, m_qty = b_qty b,
                 m_stock = None\<rparr>]
         else map (\<lambda>r. \<lparr>m_sno = b_sno b, m_original_part_number = b_part_number b,
                          m_qty = b_qty b, m_stock = Some r\<rparr>) hits)"

text \<open>
  \<open>stock_map\<close> (first row per part number) is consulted first, then
  \<open>stock_map_norm\<close> (first row per match key).
\<close>

definition lookup_superseded :: "stock_item list \<Rightarrow> string \<Rightarrow> stock_item option" where
  "lookup_superseded stock sup_pointer =
     (let new_pn = str_strip sup_pointer;
          new_pn_clean = str_replace (CHR ''-'') [] new_pn
      in case find (\<lambda>r. s_part_number r = new_pn) stock of
           Some q \<Rightarrow> Some q
         | None \<Rightarrow> find (\<lambda>r. match_key r = new_pn_clean) stock)"

text \<open>
  The body of the loop over the merged rows: the rows it appends to \<open>results_list\<close>.
  \<open>own\<close> is the row of the original part; the three branches that emit it differ in
  its status and back order only. The price of the original row is the decimal of the
  stock row, the price of the replacement row is \<open>float(price)\<close>.
\<close>

definition reconcile_row :: "stock_item list \<Rightarrow> merged_row \<Rightarrow> out_row list" where
  "reconcile_row stock row =
     (let orig_pn = m_original_part_number row;
          req_qty = m_qty row;
          sno = m_sno row;
          desc = (case m_stock row of None \<Rightarrow> None | Some p \<Rightarrow> s_description p)
      in case (m_stock row, desc) of
           (Some p, Some d) \<Rightarrow>
             (let avail = s_free_stock p;
                  price = s_price p;
                  real_pn = s_part_number p;
                  alloc_orig = min req_qty avail;
                  back_order_orig = max 0 (req_qty - alloc_orig);
                  remainder = req_qty - alloc_orig;
                  marker = (case s_superseded p of
                              None \<Rightarrow> None
                            | Some s \<Rightarrow> if str_strip s = [] then None else Some (str_strip s));
                  superseded_part_data =
                    (case s_superseded p of
                       None \<Rightarrow> None
                     | Some s \<Rightarrow> if remainder > 0 \<and> str_strip s \<noteq> []
                                then lookup_superseded stock s else None);
                  sup_display = marker;
                  own = \<lparr>out_sno = SStr (str_int sno), out_original_part_number = orig_pn,
                          out_description = Some d, out_price = price,
                          out_available_qty = avail, out_requested_qty = req_qty,
                          out_allocated_qty = alloc_orig, out_back_order = back_order_orig,
                          out_no_record = False, out_status = ''Fully Allocated'',
                          out_allocated_part_number = Some real_pn,
                          out_supersedes = sup_display\<rparr>
              in if remainder \<le> 0
                 then [own\<lparr>out_back_order := 0\<rparr>]
                 else
                   case superseded_part_data of
                     Some q \<Rightarrow>
                       if s_free_stock q > 0
                       then
                         (let sup_avail = s_free_stock q;
                              sup_price = py_float (s_price q);
                              alloc_sup = min remainder sup_avail
                          in [own\<lparr>out_status := (if alloc_orig > 0 then ''Partial - Split''
                                                     else ''Out of Stock'')\<rparr>,
                              \<lparr>out_sno = SStr (str_int sno @ ''.1''),
                               out_original_part_number = orig_pn,
                               out_description =
                                 Some (''(Superseded) '' @ str_of_option (s_description q)),
                               out_price = sup_price,
                               out_available_qty = sup_avail, out_requested_qty = 0,
                               out_allocated_qty = alloc_sup, out_back_order = 0,
                               out_no_record = False,
                               out_status = ''Superseded fulfillment'',
                               out_allocated_part_number = Some (s_part_number q),
                               out_supersedes = None\<rparr>])
                       else [own\<lparr>out_status := (if alloc_orig > 0 then ''Partial''
                                                    else ''Out of Stock'')\<rparr>]
                   | None \<Rightarrow>
                       [own\<lparr>out_status := (if alloc_orig > 0 then ''Partial''
                                               else ''Out of Stock'')\<rparr>])
         | _ \<Rightarrow>
             [\<lparr>out_sno = SNum sno, out_original_part_number = orig_pn,
               out_description = None, out_price = 0, out_available_qty = 0,
               out_requested_qty = req_qty, out_allocated_qty = 0, out_back_order = req_qty,
               out_no_record = True, out_status = ''Invalid Part'',
               out_allocated_part_number = None, out_supersedes = None\<rparr>])"

text \<open>
  The final \<open>sort_values(by=['S.No', 'status'], ascending=[True, False])\<close>: a stable
  sort; numbers come before strings, numbers compare by value, strings character by
  character.
\<close>

fun sno_less :: "sno_val \<Rightarrow> sno_val \<Rightarrow> bool" where
  "sno_less (SNum a) (SNum b) = (a < b)"
| "sno_less (SNum a) (SStr t) = True"
| "sno_less (SStr s) (SNum b) = False"
| "sno_less (SStr s) (SStr t) = (s < t)"

definition row_le :: "out_row \<Rightarrow> out_row \<Rightarrow> bool" where
  "row_le x y \<longleftrightarrow>
     sno_less (out_sno x) (out_sno y)
     \<or> (out_sno x = out_sno y \<and> out_status y \<le> out_status x)"

fun insort_by :: "('a \<Rightarrow> 'a \<Rightarrow> bool) \<Rightarrow> 'a \<Rightarrow> 'a list \<Rightarrow> 'a list" where
  "insort_by le x [] = [x]"
| "insort_by le x (y # ys) = (if le x y then x # y # ys else y # insort_by le x ys)"

definition sort_by :: "('a \<Rightarrow> 'a \<Rightarrow> bool) \<Rightarrow> 'a list \<Rightarrow> 'a list" where
  "sort_by le xs = foldr (insort_by le) xs []"

text \<open>
  The prices of the stock frame are the decimals read from the store. With an adjustment
  other than 0 the source multiplies the price column by a float: on a frame with rows the
  product of a decimal and a float raises \<open>TypeError\<close>, on the empty frame the column
  does not exist and reading it raises \<open>KeyError\<close>. With the adjustment 0 the prices
  stay as they are.
\<close>

definition process_bulk_enquiry ::
  "db \<Rightarrow> bulk_row list \<Rightarrow> string \<Rightarrow> rat \<Rightarrow> error + out_row list" where
  "process_bulk_enquiry d df_bulk stock_type adjustment_percent =
     (let df = sort_key b_sno df_bulk;
          stock = filter (\<lambda>r. s_stock_type r = stock_type \<and> s_is_active r) (parts_stock d)
      in if adjustment_percent \<noteq> 0
         then (if stock = [] then Inl (KeyError ''price'') else Inl TypeError)
         else if stock = [] then Inl (KeyError ''free_stock'')
         else
           let merged = concat (map (merge_row stock) df);
               results_list = concat (map (reconcile_row stock) merged)
           in Inr (sort_by row_le results_list))"

text \<open>
  The example of the specification: part A-1 with stock 5 is superseded by part B-2 with
  stock 30.
\<close>

definition bulk_example_db :: db where
  "bulk_example_db =
     \<lparr>parts_stock =
        [\<lparr>s_part_number = ''A-1'', s_description = Some ''Old clip'', s_free_stock = 5,
          s_price = 2, s_stock_type = ''parts_stock'', s_is_active = True,
          s_superseded = Some ''B-2''\<rparr>,
         \<lparr>s_part_number = ''B-2'', s_description = Some ''New clip'', s_free_stock = 30,
          s_price = 3, s_stock_type = ''parts_stock'', s_is_active = True,
          s_superseded = None\<rparr>],
      cart = [], orders = [], order_items = [],
      next_cart_id = 1, next_order_id = 1, next_item_id = 1\<rparr>"

text \<open>
  A catalog in which the part numbers A-1 and A1 have the same match key; both are
  superseded by B-2.
\<close>

definition shared_key_db :: db where
  "shared_key_db =
     \<lparr>parts_stock =
        [\<lparr>s_part_number = ''A-1'', s_description = Some ''Old clip'', s_free_stock = 5,
          s_price = 2, s_stock_type = ''parts_stock'', s_is_active = True,
          s_superseded = Some ''B-2''\<rparr>,
         \<lparr>s_part_number = ''A1'', s_description = Some ''Older clip'', s_free_stock = 1,
          s_price = 2, s_stock_type = ''parts_stock'', s_is_active = True,
          s_superseded = Some ''B-2''\<rparr>,
         \<lparr>s_part_number = ''B-2'', s_description = Some ''New clip'', s_free_stock = 30,
          s_price = 3, s_stock_type = ''parts_stock'', s_is_active = True,
          s_superseded = None\<rparr>],
      cart = [], orders = [], order_items = [],
      next_cart_id = 1, next_order_id = 1, next_item_id = 1\<rparr>"

section \<open>Catalog search (logic.py, get\_parts\_like)\<close>

text \<open>
  \<open>ILIKE\<close> is \<open>LIKE\<close> on the lower-cased pattern and text (ASCII letters). In a
  pattern \<open>%\<close> stands for any sequence, \<open>_\<close> for any one character and a backslash
  takes the next character literally. The patterns of the query always end in \<open>%\<close>,
  so a backslash is never the last character; the matcher answers \<open>False\<close> there.
\<close>

definition lower_char :: "char \<Rightarrow> char" where
  "lower_char c =
     (case map_of (zip ''ABCDEFGHIJKLMNOPQRSTUVWXYZ'' ''abcdefghijklmnopqrstuvwxyz'') c of
        Some l \<Rightarrow> l
      | None \<Rightarrow> c)"

fun like_match :: "string \<Rightarrow> string \<Rightarrow> bool" where
  "like_match [] [] = True"
| "like_match [] (x # t) = False"
| "like_match (p # ps) [] = (p = CHR ''%'' \<and> like_match ps [])"
| "like_match (p # ps) (x # t) =
     (if p = CHR ''%'' then like_match ps (x # t) \<or> like_match (p # ps) t
      else if p = CHR ''_'' then like_match ps t
      else if p = CHR 0x5C
        then (case ps of [] \<Rightarrow> False | c # ps' \<Rightarrow> x = c \<and> like_match ps' t)
      else p = x \<and> like_match ps t)"

definition ilike :: "string \<Rightarrow> string \<Rightarrow> bool" where
  "ilike txt pattern = like_match (map lower_char pattern) (map lower_char txt)"

text \<open>A comparison with \<open>NULL\<close> is not true.\<close>

definition ilike_null :: "string option \<Rightarrow> string \<Rightarrow> bool" where
  "ilike_null txt pattern = (case txt of None \<Rightarrow> False | Some t \<Rightarrow> ilike t pattern)"

definition cleaned_prefix :: "string \<Rightarrow> string" where
  "cleaned_prefix prefix =
     str_strip (str_replace (CHR ''-'') [] (sanitize_part_number (Some prefix)))"

text \<open>The two keys of \<open>ORDER BY\<close>; part numbers compare character by character.\<close>

definition exact_rank :: "string \<Rightarrow> stock_item \<Rightarrow> nat" where
  "exact_rank prefix r = (if ilike (s_part_number r) (cleaned_prefix prefix @ ''%'') then 1 else 2)"

definition order_key :: "string \<Rightarrow> stock_item \<Rightarrow> nat \<times> string" where
  "order_key prefix r = (exact_rank prefix r, s_part_number r)"

text \<open>The rows the query returns: filtered, sorted (a stable sort), at most 50.\<close>

definition select_parts_like :: "stock_item list \<Rightarrow> string \<Rightarrow> string \<Rightarrow> stock_item list" where
  "select_parts_like table prefix stock_type =
     (let pat = ''%'' @ cleaned_prefix prefix @ ''%'';
          raw_pat = ''%'' @ str_strip prefix @ ''%'';
          hits = filter (\<lambda>r. (ilike (s_part_number r) pat \<or> ilike (s_part_number r) raw_pat
                               \<or> ilike_null (s_description r) pat
                               \<or> ilike_null (s_superseded r) pat)
                              \<and> s_stock_type r = stock_type \<and> s_is_active r) table
      in take 50 (sort_key (order_key prefix) hits))"

text \<open>
  A result: the row with its adjusted price, the flag \<open>is_superseded_replacement\<close>
  and the attached \<open>superseded_part\<close> (\<open>has_supersession\<close> is set exactly when one is
  attached).
\<close>

datatype part_obj =
  PartObj (po_row: stock_item) (po_is_superseded_replacement: bool)
    (po_superseded_part: "part_obj option")

text \<open>
  The price update of \<open>process_row\<close>:
  \<open>round(float(price) * (1 + adjustment_percent / 100.0), 2)\<close>, every step in floats.
  \<open>adjustment_percent\<close> is a float.
\<close>

definition adjust_price :: "rat \<Rightarrow> stock_item \<Rightarrow> stock_item" where
  "adjust_price adjustment_percent r =
     r\<lparr>s_price :=
         py_round2 (float_mul (py_float (s_price r))
                      (float_add 1 (float_div adjustment_percent 100)))\<rparr>"

text \<open>
  \<open>check_supersession\<close> returns the replacement it found together with the set
  \<open>seen_parts\<close>, which \<open>process_row\<close> extends. All rows of \<open>sup_rows\<close> that
  \<open>process_row\<close> has seen are passed over; the first other row is returned.
\<close>

function check_supersession ::
  "stock_item list \<Rightarrow> string \<Rightarrow> rat \<Rightarrow> string set \<Rightarrow> stock_item \<Rightarrow> nat
     \<Rightarrow> part_obj option \<times> string set" where
  "check_supersession table stock_type adj seen_parts current depth =
     (if depth > 5 then (None, seen_parts)
      else
        case s_superseded current of
          None \<Rightarrow> (None, seen_parts)
        | Some marker \<Rightarrow>
            if str_strip marker = [] then (None, seen_parts)
            else
              let sup_clean = str_strip marker;
                  sup_rows = filter (\<lambda>r. s_part_number r = sup_clean
                                          \<and> s_stock_type r = stock_type \<and> s_is_active r) table
              in case find (\<lambda>r. s_part_number r \<notin> seen_parts) sup_rows of
                   None \<Rightarrow> (None, seen_parts)
                 | Some sd \<Rightarrow>
                     let seen1 = insert (s_part_number sd) seen_parts;
                         inner = adjust_price adj sd;
                         resup = check_supersession table stock_type adj seen1 inner (Suc depth)
                     in (Some (PartObj inner True (fst resup)), snd resup))"
  by pat_completeness auto
termination
  by (relation "measure (\<lambda>(table, stock_type, adj, seen_parts, current, depth). 6 - depth)") auto

declare check_supersession.simps [simp del]

text \<open>The loop over the rows of the query.\<close>

fun search_loop ::
  "stock_item list \<Rightarrow> string \<Rightarrow> rat \<Rightarrow> stock_item list \<Rightarrow> string set \<Rightarrow> part_obj list" where
  "search_loop table stock_type adj [] seen_parts = []"
| "search_loop table stock_type adj (row # rows) seen_parts =
     (if s_part_number row \<in> seen_parts
      then search_loop table stock_type adj rows seen_parts
      else
        let seen1 = insert (s_part_number row) seen_parts;
            processed = adjust_price adj row;
            sup_obj = check_supersession table stock_type adj seen1 processed 0
        in PartObj processed False (fst sup_obj) # search_loop table stock_type adj rows (snd sup_obj))"

definition get_parts_like :: "db \<Rightarrow> string \<Rightarrow> string \<Rightarrow> rat \<Rightarrow> part_obj list" where
  "get_parts_like d prefix stock_type adjustment_percent =
     search_loop (parts_stock d) stock_type adjustment_percent
       (select_parts_like (parts_stock d) prefix stock_type) {}"

text \<open>A catalog with the part numbers A-1 and A10.\<close>

definition hyphen_search_db :: db where
  "hyphen_search_db =
     \<lparr>parts_stock =
        [\<lparr>s_part_number = ''A-1'', s_description = Some ''Clip'', s_free_stock = 5,
          s_price = 2, s_stock_type = ''parts_stock'', s_is_active = True,
          s_superseded = None\<rparr>,
         \<lparr>s_part_number = ''A10'', s_description = Some ''Bolt'', s_free_stock = 7,
          s_price = 3, s_stock_type = ''parts_stock'', s_is_active = True,
          s_superseded = None\<rparr>],
      cart = [], orders = [], order_items = [],
      next_cart_id = 1, next_order_id = 1, next_item_id = 1\<rparr>"

text \<open>
  Two conditions on the stock table: at most one row per pair of part number and stock
  type, and no negative \<open>free_stock\<close>.
\<close>

definition stock_keys_unique :: "stock_item list \<Rightarrow> bool" where
  "stock_keys_unique rows \<longleftrightarrow> distinct (map (\<lambda>r. (s_part_number r, s_stock_type r)) rows)"

definition stock_nonneg :: "stock_item list \<Rightarrow> bool" where
  "stock_nonneg rows \<longleftrightarrow> list_all (\<lambda>r. 0 \<le> s_free_stock r) rows"

section \<open>Properties of the normalizer\<close>

lemma str_replace_delete: "str_replace old [] s = filter (\<lambda>c. c \<noteq> old) s"
  by (induction s) (simp_all add: str_replace_def)

lemma str_replace_single:
  "str_replace old [new] s = map (\<lambda>c. if c = old then new else c) s"
  by (induction s) (simp_all add: str_replace_def)

lemma str_strip_Nil: "str_strip [] = []"
  by (simp add: str_strip_def)

text \<open>
  C8: for every input string the normalizer equals uppercasing, removing \<open>*\<close>, \<open>@\<close> and
  \<open>+\<close>, replacing O by 0 and trimming; the empty and the null input give the empty
  string; \<open>normalize("AB*O12") = "AB012"\<close>. Being a HOL function, it is deterministic
  and pure.
\<close>

theorem sanitize_part_number_refines_spec:
  "sanitize_part_number (Some raw) = normalize_spec raw
   \<and> sanitize_part_number None = []
   \<and> sanitize_part_number (Some []) = []
   \<and> sanitize_part_number (Some ''AB*O12'') = ''AB012''"
proof -
  have a: "sanitize_part_number (Some raw) = normalize_spec raw"
  proof (cases "raw = []")
    case True
    then show ?thesis
      by (simp add: sanitize_part_number_def normalize_spec_def str_strip_Nil)
  next
    case False
    then show ?thesis
      by (auto simp add: sanitize_part_number_def normalize_spec_def str_upper_def
          str_replace_delete str_replace_single Let_def intro!: arg_cong [where f = str_strip]
          filter_cong)
  qed
  have b: "sanitize_part_number None = []"
    by (simp add: sanitize_part_number_def)
  have c: "sanitize_part_number (Some []) = []"
    by (simp add: sanitize_part_number_def)
  have d: "sanitize_part_number (Some ''AB*O12'') = ''AB012''"
    by (simp add: sanitize_part_number_def str_upper_def upper_char_def str_replace_def
        str_strip_def py_isspace_def)
  from a b c d show ?thesis by blast
qed

text \<open>
  C9 (as the code has it): \<open>normalize("O1*2@3+O")\<close> is \<open>"01230"\<close>: the three symbols
  are removed and both letters O become the digit 0, which leaves five characters.
\<close>

theorem sanitize_example_value:
  "sanitize_part_number (Some ''O1*2@3+O'') = ''01230''"
  by (simp add: sanitize_part_number_def str_upper_def upper_char_def str_replace_def
      str_strip_def py_isspace_def)

text \<open>C9 as the specification states it does not hold: the result is not \<open>"012303"\<close>.\<close>

theorem sanitize_example_counterexample:
  "sanitize_part_number (Some ''O1*2@3+O'') \<noteq> ''012303''"
  by (simp add: sanitize_part_number_def str_upper_def upper_char_def str_replace_def
      str_strip_def py_isspace_def)

section \<open>Properties of the cart\<close>

lemma map_upd_distinct:
  assumes "distinct (map f xs)" and "k < length xs"
  shows "map (\<lambda>c. if f c = f (xs ! k) then g c else c) xs = xs[k := g (xs ! k)]"
proof (rule nth_equalityI)
  show "length (map (\<lambda>c. if f c = f (xs ! k) then g c else c) xs) = length (xs[k := g (xs ! k)])"
    by simp
next
  fix j assume j: "j < length (map (\<lambda>c. if f c = f (xs ! k) then g c else c) xs)"
  then have jl: "j < length xs" by simp
  have "f (xs ! j) = f (xs ! k) \<longleftrightarrow> j = k"
    using assms jl by (metis distinct_conv_nth length_map nth_map)
  then show "map (\<lambda>c. if f c = f (xs ! k) then g c else c) xs ! j = xs[k := g (xs ! k)] ! j"
    using jl by (auto simp: nth_list_update)
qed

text \<open>
  C10: adding a part that the user's cart already holds (the same \<open>user_id\<close> and the
  same sanitized part number) changes one cart line only, and only its \<open>qty\<close>, which
  becomes the sum of the old and the new quantity; the description, the price and the
  \<open>supersedes\<close> annotation of the line stay those of the first add, every other cart
  row and every other table is left as it was. The key \<open>id\<close> is unique in the table.
\<close>

theorem add_to_cart_db_existing:
  assumes "find (\<lambda>c. c_user_id c = uid \<and> c_part_number c = sanitize_part_number pn) (cart d)
             = Some row"
      and "distinct (map c_id (cart d))"
  shows "\<exists>k < length (cart d). cart d ! k = row \<and>
           add_to_cart_db d uid pn descr q pr supers
             = d\<lparr>cart := (cart d)[k := row\<lparr>c_qty := c_qty row + q\<rparr>]\<rparr>"
proof -
  from assms(1) obtain k where k: "k < length (cart d)" "cart d ! k = row"
    by (auto simp: find_Some_iff)
  have "map (\<lambda>c. if c_id c = c_id (cart d ! k) then c\<lparr>c_qty := c_qty row + q\<rparr> else c) (cart d)
          = (cart d)[k := (cart d ! k)\<lparr>c_qty := c_qty row + q\<rparr>]"
    using map_upd_distinct [OF assms(2) k(1), of "\<lambda>c. c\<lparr>c_qty := c_qty row + q\<rparr>"] .
  then have "add_to_cart_db d uid pn descr q pr supers
             = d\<lparr>cart := (cart d)[k := row\<lparr>c_qty := c_qty row + q\<rparr>]\<rparr>"
    using assms(1) k by (simp add: add_to_cart_db_def Let_def)
  with k show ?thesis by blast
qed

theorem add_to_cart_db_existing_witness:
  "find (\<lambda>c. c_user_id c = 7 \<and> c_part_number c = sanitize_part_number (Some ''ab*o12''))
       (cart cart_example_db) = Some cart_example_line
   \<and> distinct (map c_id (cart cart_example_db))
   \<and> (\<exists>k<length (cart cart_example_db). cart cart_example_db ! k = cart_example_line \<and>
         add_to_cart_db cart_example_db 7 (Some ''ab*o12'') (Some ''Other text'') 3 9 (Some ''Z'')
           = cart_example_db\<lparr>cart := (cart cart_example_db)
               [k := cart_example_line\<lparr>c_qty := c_qty cart_example_line + 3\<rparr>]\<rparr>)"
proof -
  have s: "sanitize_part_number (Some ''ab*o12'') = ''AB012''"
    by (simp add: sanitize_part_number_def str_upper_def upper_char_def str_replace_def
        str_strip_def py_isspace_def)
  have h1: "find (\<lambda>c. c_user_id c = 7 \<and> c_part_number c = sanitize_part_number (Some ''ab*o12''))
       (cart cart_example_db) = Some cart_example_line"
    unfolding s by (simp add: cart_example_db_def cart_example_line_def)
  have h2: "distinct (map c_id (cart cart_example_db))"
    by (simp add: cart_example_db_def cart_example_line_def)
  from add_to_cart_db_existing [OF h1 h2] h1 h2 show ?thesis by blast
qed

section \<open>Evaluating floats\<close>

lemma floor_rat_numeral: "\<lfloor>numeral a / numeral b :: rat\<rfloor> = numeral a div numeral b"
  using floor_divide_of_int_eq [of "numeral a" "numeral b", where ?'a = rat] by simp

lemmas float_eval = py_float_def float_scaled_def float_add_def float_mul_def float_div_def
  py_round2_def scale_up.simps scale_down.simps round_half_even_def pow2_def floor_rat_numeral

text \<open>The float nearest to one tenth, and the sums of two and of three of them.\<close>

lemma float_tenth: "py_float (1 / 10) = 3602879701896397 / 36028797018963968"
  by (simp add: float_eval)

lemma float_tenth_sums:
  "float_add (3602879701896397 / 36028797018963968) (3602879701896397 / 36028797018963968)
     = 3602879701896397 / 18014398509481984"
  "float_add (3602879701896397 / 18014398509481984) (3602879701896397 / 36028797018963968)
     = 1351079888211149 / 4503599627370496"
  by (simp_all add: float_eval)

text \<open>
  The rounding of the Python documentation: \<open>round(1.015, 2)\<close> is \<open>1.01\<close>, and
  \<open>round(0.35 * 1.1, 2)\<close> is \<open>0.39\<close>.
\<close>

lemma py_round2_examples:
  "py_round2 (py_float (203 / 200)) = py_float (101 / 100)"
  "py_round2 (float_mul (py_float (35 / 100)) (float_add 1 (float_div 10 100)))
     = py_float (39 / 100)"
  by (simp_all add: float_eval)

section \<open>Properties of the order commit\<close>

lemma commit_item_step:
  "commit_item oid st (s, t) it =
     (let cur = (case find (stock_match (r_part_number it) st) (parts_stock s) of
                   None \<Rightarrow> 0 | Some r \<Rightarrow> s_free_stock r);
          alloc = min (r_qty it) cur
      in (s\<lparr>parts_stock :=
               map (\<lambda>r. if stock_match (r_part_number it) st r \<and> 0 < alloc
                         then r\<lparr>s_free_stock := s_free_stock r - alloc\<rparr> else r) (parts_stock s),
             order_items := order_items s @
               [\<lparr>i_id = next_item_id s, i_order_id = oid, i_part_number = r_part_number it,
                 i_description = r_description it, i_qty = alloc, i_requested_qty = r_qty it,
                 i_available_qty = cur, i_price = r_price it, i_supersedes = r_supersedes it\<rparr>],
             next_item_id := Suc (next_item_id s)\<rparr>,
          float_add t (float_mul (py_float (of_int alloc)) (r_price it))))"
proof (cases "0 < min (r_qty it) (case find (stock_match (r_part_number it) st) (parts_stock s) of
                   None \<Rightarrow> 0 | Some r \<Rightarrow> s_free_stock r)")
  case True
  then show ?thesis
    by (simp add: commit_item_def Let_def update_free_stock_def del: min_less_iff_conj)
next
  case False
  then show ?thesis
    by (simp add: commit_item_def Let_def del: min_less_iff_conj)
qed

lemma create_order_example:
  "create_order order_example_db 7 order_example_items ''parts_stock'' =
     (\<lparr>parts_stock =
        [\<lparr>s_part_number = ''P100'', s_description = Some ''Bracket'', s_free_stock = 0,
          s_price = 5 / 2, s_stock_type = ''parts_stock'', s_is_active = True,
          s_superseded = None\<rparr>],
       cart = [],
       orders = [\<lparr>o_order_id = 1, o_user_id = 7, o_total_price = 10,
                  o_order_status = ''Pending'', o_stock_type = ''parts_stock''\<rparr>],
       order_items =
         [\<lparr>i_id = 1, i_order_id = 1, i_part_number = ''P100'',
           i_description = Some ''Bracket'', i_qty = 4, i_requested_qty = 10,
           i_available_qty = 4, i_price = 5 / 2, i_supersedes = None\<rparr>],
       next_cart_id = 1, next_order_id = 2, next_item_id = 2\<rparr>, 1)"
  by (simp add: create_order_def commit_item_def order_example_db_def order_example_items_def
      stock_match_def update_free_stock_def Let_def)
     (simp add: float_eval)

lemma create_order_generations:
  "create_order generations_db 7 order_example_items ''parts_stock'' =
     (\<lparr>parts_stock =
        [\<lparr>s_part_number = ''P100'', s_description = Some ''Bracket'', s_free_stock = 0,
          s_price = 5 / 2, s_stock_type = ''parts_stock'', s_is_active = False,
          s_superseded = None\<rparr>,
         \<lparr>s_part_number = ''P100'', s_description = Some ''Bracket'', s_free_stock = - 7,
          s_price = 5 / 2, s_stock_type = ''parts_stock'', s_is_active = True,
          s_superseded = None\<rparr>],
       cart = [],
       orders = [\<lparr>o_order_id = 1, o_user_id = 7, o_total_price = 25,
                  o_order_status = ''Pending'', o_stock_type = ''parts_stock''\<rparr>],
       order_items =
         [\<lparr>i_id = 1, i_order_id = 1, i_part_number = ''P100'',
           i_description = Some ''Bracket'', i_qty = 10, i_requested_qty = 10,
           i_available_qty = 10, i_price = 5 / 2, i_supersedes = None\<rparr>],
       next_cart_id = 1, next_order_id = 2, next_item_id = 2\<rparr>, 1)"
  by (simp add: generations_db_def upload_parts_stock_def create_order_def commit_item_def
      order_example_items_def stock_match_def update_free_stock_def Let_def
      str_strip_def py_isspace_def)
     (simp add: float_eval)

lemma create_order_tenths:
  "create_order tenth_example_db 7 tenth_example_items ''parts_stock'' =
     (\<lparr>parts_stock =
        [\<lparr>s_part_number = ''P100'', s_description = Some ''Bracket'', s_free_stock = 97,
          s_price = 1 / 10, s_stock_type = ''parts_stock'', s_is_active = True,
          s_superseded = None\<rparr>],
       cart = [],
       orders = [\<lparr>o_order_id = 1, o_user_id = 7,
                  o_total_price = 1351079888211149 / 4503599627370496,
                  o_order_status = ''Pending'', o_stock_type = ''parts_stock''\<rparr>],
       order_items =
         [\<lparr>i_id = 1, i_order_id = 1, i_part_number = ''P100'',
           i_description = Some ''Bracket'', i_qty = 1, i_requested_qty = 1,
           i_available_qty = 100, i_price = 3602879701896397 / 36028797018963968,
           i_supersedes = None\<rparr>,
          \<lparr>i_id = 2, i_order_id = 1, i_part_number = ''P100'',
           i_description = Some ''Bracket'', i_qty = 1, i_requested_qty = 1,
           i_available_qty = 99, i_price = 3602879701896397 / 36028797018963968,
           i_supersedes = None\<rparr>,
          \<lparr>i_id = 3, i_order_id = 1, i_part_number = ''P100'',
           i_description = Some ''Bracket'', i_qty = 1, i_requested_qty = 1,
           i_available_qty = 98, i_price = 3602879701896397 / 36028797018963968,
           i_supersedes = None\<rparr>],
       next_cart_id = 1, next_order_id = 2, next_item_id = 4\<rparr>, 1)"
proof -
  have one: "py_float 1 = 1"
    by (simp add: float_eval)
  have m: "float_mul 1 (3602879701896397 / 36028797018963968)
             = 3602879701896397 / 36028797018963968"
    by (simp add: float_eval)
  have z: "float_add 0 (3602879701896397 / 36028797018963968)
             = 3602879701896397 / 36028797018963968"
    by (simp add: float_eval)
  have r: "replicate 3 x = [x, x, x]" for x :: order_request
    by (simp add: numeral_3_eq_3)
  show ?thesis
    by (simp add: create_order_def commit_item_def tenth_example_db_def tenth_example_items_def
        r float_tenth one m z float_tenth_sums stock_match_def update_free_stock_def Let_def)
qed

text \<open>
  C2: the postcondition of \<open>create_order\<close> does not hold. On the table with two
  generations of part P100 (an inactive row with stock 10, the active row with stock 3) an
  order for ten units records \<open>qty = 10\<close> and \<open>available_qty = 10\<close>, where the current
  stock of the part is 3 and \<open>min 10 3 = 3\<close>; both rows are decremented by ten. And the
  total of the header is accumulated in floats: for three lines of one unit at the price
  \<open>float('0.1')\<close> it is the float \<open>0.30000000000000004\<close>, which is not the sum of
  \<open>qty * price\<close> over the three stored items.
\<close>

theorem create_order_allocates_beyond_active_stock:
  "map (\<lambda>r. (s_is_active r, s_free_stock r)) (parts_stock generations_db)
     = [(False, 10), (True, 3)]
   \<and> map (\<lambda>i. (i_part_number i, i_requested_qty i, i_qty i, i_available_qty i))
       (order_items (fst (create_order generations_db 7 order_example_items ''parts_stock'')))
     = [(''P100'', 10, 10, 10)]
   \<and> map (\<lambda>r. (s_is_active r, s_free_stock r))
       (parts_stock (fst (create_order generations_db 7 order_example_items ''parts_stock'')))
     = [(False, 0), (True, - 7)]
   \<and> map o_total_price
       (orders (fst (create_order tenth_example_db 7 tenth_example_items ''parts_stock'')))
     = [1351079888211149 / 4503599627370496]
   \<and> sum_list (map (\<lambda>i. of_int (i_qty i) * i_price i)
       (order_items (fst (create_order tenth_example_db 7 tenth_example_items ''parts_stock''))))
     = 10808639105689191 / 36028797018963968
   \<and> (1351079888211149 / 4503599627370496 :: rat) \<noteq> 10808639105689191 / 36028797018963968"
proof -
  have "map (\<lambda>r. (s_is_active r, s_free_stock r)) (parts_stock generations_db)
     = [(False, 10), (True, 3)]"
    by (simp add: generations_db_def upload_parts_stock_def)
  then show ?thesis
    by (simp add: create_order_generations create_order_tenths)
qed

section \<open>Properties of the order ledger reversal\<close>

lemma restore_fold_rows:
  "foldl (\<lambda>d item. if i_qty item > 0
                    then d\<lparr>parts_stock := update_free_stock (i_part_number item) st (i_qty item)
                                             (parts_stock d)\<rparr>
                    else d) d items
   = d\<lparr>parts_stock :=
        map (\<lambda>r. if s_stock_type r = st
                  then r\<lparr>s_free_stock := s_free_stock r +
                         sum_list (map i_qty (filter (\<lambda>i. i_part_number i = s_part_number r \<and> 0 < i_qty i) items))\<rparr>
                  else r) (parts_stock d)\<rparr>"
proof (induction items arbitrary: d)
  case Nil
  have "map (\<lambda>r. if s_stock_type r = st then r\<lparr>s_free_stock := s_free_stock r\<rparr> else r) (parts_stock d)
        = parts_stock d"
    by (rule map_idI) simp
  then show ?case by (simp cong: if_cong)
next
  case (Cons it items)
  let ?g = "\<lambda>d item. if i_qty item > 0
                    then d\<lparr>parts_stock := update_free_stock (i_part_number item) st (i_qty item)
                                             (parts_stock d)\<rparr>
                    else d"
  let ?F = "\<lambda>its r. if s_stock_type r = st
                  then r\<lparr>s_free_stock := s_free_stock r +
                         sum_list (map i_qty (filter (\<lambda>i. i_part_number i = s_part_number r \<and> 0 < i_qty i) its))\<rparr>
                  else r"
  have "foldl ?g d (it # items) = foldl ?g (?g d it) items"
    by simp
  also have "\<dots> = (?g d it)\<lparr>parts_stock := map (?F items) (parts_stock (?g d it))\<rparr>"
    by (rule Cons.IH)
  also have "\<dots> = d\<lparr>parts_stock := map (?F (it # items)) (parts_stock d)\<rparr>"
  proof (cases "0 < i_qty it")
    case True
    have "map (?F items) (update_free_stock (i_part_number it) st (i_qty it) (parts_stock d))
            = map (?F (it # items)) (parts_stock d)"
      using True by (auto simp: update_free_stock_def stock_match_def)
    with True show ?thesis by simp
  next
    case False
    have "map (?F items) (parts_stock d) = map (?F (it # items)) (parts_stock d)"
      using False by (auto cong: if_cong)
    with False show ?thesis by simp
  qed
  finally show ?case .
qed

lemma restore_stock_closed_form:
  "restore_stock_from_order d oid =
     (case find (\<lambda>h. o_order_id h = oid) (orders d) of
        None \<Rightarrow> d
      | Some h \<Rightarrow>
          d\<lparr>parts_stock :=
              map (\<lambda>r. if s_stock_type r = o_stock_type h
                        then r\<lparr>s_free_stock := s_free_stock r + restored_qty d oid (s_part_number r)\<rparr>
                        else r) (parts_stock d)\<rparr>)"
  by (simp add: restore_stock_from_order_def restore_fold_rows restored_qty_def Let_def
      conj_commute conj_left_commute cong: conj_cong split: option.split)

lemma restore_orders: "orders (restore_stock_from_order d oid) = orders d"
  by (simp add: restore_stock_closed_form split: option.split)

lemma restore_order_items: "order_items (restore_stock_from_order d oid) = order_items d"
  by (simp add: restore_stock_closed_form split: option.split)

lemma find_after_status_update:
  "find (\<lambda>h. o_order_id h = oid)
     (map (\<lambda>h. if o_order_id h = oid then h\<lparr>o_order_status := status\<rparr> else h) hs)
   = map_option (\<lambda>h. h\<lparr>o_order_status := status\<rparr>) (find (\<lambda>h. o_order_id h = oid) hs)"
  by (induction hs) simp_all

lemma update_order_status_stock:
  "parts_stock (update_order_status d oid status) =
     (if (\<exists>c. find (\<lambda>h. o_order_id h = oid) (orders d) = Some c
              \<and> o_order_status c \<noteq> ''Rejected'') \<and> status = ''Rejected''
      then parts_stock (restore_stock_from_order d oid)
      else parts_stock d)"
  by (auto simp add: update_order_status_def Let_def split: option.split)

lemma update_order_status_orders:
  "orders (update_order_status d oid status) =
     map (\<lambda>h. if o_order_id h = oid then h\<lparr>o_order_status := status\<rparr> else h) (orders d)"
  by (simp add: update_order_status_def Let_def restore_orders split: option.split)

lemma reject_twice:
  "parts_stock (update_order_status (update_order_status d oid ''Rejected'') oid ''Rejected'')
     = parts_stock (update_order_status d oid ''Rejected'')"
  by (auto simp add: update_order_status_stock [of "update_order_status d oid ''Rejected''"]
      update_order_status_orders find_after_status_update)

lemma delete_order_eq:
  "delete_order d oid =
     (restore_stock_from_order d oid)
       \<lparr>order_items := filter (\<lambda>i. i_order_id i \<noteq> oid) (order_items d),
        orders := filter (\<lambda>h. o_order_id h \<noteq> oid) (orders d)\<rparr>"
  by (simp add: delete_order_def Let_def restore_orders restore_order_items)

lemma rejected_example_db_eq:
  "rejected_example_db =
     \<lparr>parts_stock =
        [\<lparr>s_part_number = ''P100'', s_description = Some ''Bracket'', s_free_stock = 0,
          s_price = 5 / 2, s_stock_type = ''parts_stock'', s_is_active = True,
          s_superseded = None\<rparr>],
       cart = [],
       orders = [\<lparr>o_order_id = 1, o_user_id = 7, o_total_price = 10,
                  o_order_status = ''Pending'', o_stock_type = ''parts_stock''\<rparr>],
       order_items =
         [\<lparr>i_id = 1, i_order_id = 1, i_part_number = ''P100'',
           i_description = Some ''Bracket'', i_qty = 4, i_requested_qty = 10,
           i_available_qty = 4, i_price = 5 / 2, i_supersedes = None\<rparr>],
       next_cart_id = 1, next_order_id = 2, next_item_id = 2\<rparr>"
  by (simp add: rejected_example_db_def create_order_example)

lemma reject_example:
  "map s_free_stock (parts_stock (update_order_status rejected_example_db 1 ''Rejected'')) = [4]"
  by (simp add: rejected_example_db_eq update_order_status_def restore_stock_from_order_def
      update_free_stock_def stock_match_def Let_def)

text \<open>
  C3 (as the code has it): \<open>update_order_status\<close> restores stock exactly when the order
  exists, its current status is not \<open>Rejected\<close> and the new status is \<open>Rejected\<close>;
  the restoration adds to every stock row of the order's stock type the \<open>qty\<close> of the
  order's items of that part with \<open>qty > 0\<close>. Rejecting an already rejected order
  leaves the stock as it is (in the example the stock goes from 0 back to 4, and stays 4 at
  the second reject). \<open>delete_order\<close> restores whatever the status is and then removes
  the order and its items. The reversal is once per transition into \<open>Rejected\<close>, not
  once per order.
\<close>

theorem order_reversal_guard:
  "parts_stock (update_order_status d oid status) =
     (if (\<exists>c. find (\<lambda>h. o_order_id h = oid) (orders d) = Some c
              \<and> o_order_status c \<noteq> ''Rejected'') \<and> status = ''Rejected''
      then parts_stock (restore_stock_from_order d oid)
      else parts_stock d)
   \<and> restore_stock_from_order d oid =
       (case find (\<lambda>h. o_order_id h = oid) (orders d) of
          None \<Rightarrow> d
        | Some h \<Rightarrow>
            d\<lparr>parts_stock :=
                map (\<lambda>r. if s_stock_type r = o_stock_type h
                          then r\<lparr>s_free_stock :=
                                   s_free_stock r + restored_qty d oid (s_part_number r)\<rparr>
                          else r) (parts_stock d)\<rparr>)
   \<and> parts_stock (update_order_status (update_order_status d oid ''Rejected'') oid ''Rejected'')
       = parts_stock (update_order_status d oid ''Rejected'')
   \<and> delete_order d oid =
       (restore_stock_from_order d oid)
         \<lparr>order_items := filter (\<lambda>i. i_order_id i \<noteq> oid) (order_items d),
          orders := filter (\<lambda>h. o_order_id h \<noteq> oid) (orders d)\<rparr>
   \<and> map s_free_stock (parts_stock rejected_example_db) = [0]
   \<and> map s_free_stock (parts_stock (update_order_status rejected_example_db 1 ''Rejected'')) = [4]
   \<and> map s_free_stock
       (parts_stock (update_order_status (update_order_status rejected_example_db 1 ''Rejected'')
          1 ''Rejected'')) = [4]"
proof -
  have "map s_free_stock (parts_stock rejected_example_db) = [0]"
    by (simp add: rejected_example_db_eq)
  moreover have "map s_free_stock
       (parts_stock (update_order_status (update_order_status rejected_example_db 1 ''Rejected'')
          1 ''Rejected'')) = [4]"
    by (simp only: reject_twice reject_example)
  ultimately show ?thesis
    using update_order_status_stock [of d oid status] restore_stock_closed_form [of d oid]
      reject_twice [of d oid] delete_order_eq [of d oid] reject_example
    by (intro conjI) assumption+
qed

text \<open>
  C3 as the specification states it does not hold: for the example order (four units
  allocated out of a stock of four) the sequence reject, accept, reject restores the four
  units twice and leaves a stock of eight.
\<close>

theorem reversal_twice_counterexample:
  "map s_free_stock (parts_stock order_example_db) = [4]
   \<and> map i_qty (order_items rejected_example_db) = [4]
   \<and> map s_free_stock
       (parts_stock
          (update_order_status
             (update_order_status (update_order_status rejected_example_db 1 ''Rejected'')
                1 ''Accepted'')
             1 ''Rejected'')) = [8]"
  by (simp add: order_example_db_def rejected_example_db_eq update_order_status_def
      restore_stock_from_order_def update_free_stock_def stock_match_def Let_def)

section \<open>The stock invariant\<close>

text \<open>
  C1: \<open>free_stock\<close> does not stay non-negative. After two uploads the table holds an
  inactive and an active row of part P100 with stocks 10 and 3. \<open>create_order\<close> reads
  the first row of the part (10), allocates 10 and decrements every row of the part by 10:
  the active row ends at \<open>-7\<close>.
\<close>

theorem create_order_negative_stock:
  "map (\<lambda>r. (s_part_number r, s_stock_type r, s_is_active r, s_free_stock r))
     (parts_stock generations_db)
     = [(''P100'', ''parts_stock'', False, 10), (''P100'', ''parts_stock'', True, 3)]
   \<and> map (\<lambda>r. (s_part_number r, s_stock_type r, s_is_active r, s_free_stock r))
       (parts_stock (fst (create_order generations_db 7 order_example_items ''parts_stock'')))
     = [(''P100'', ''parts_stock'', False, 0), (''P100'', ''parts_stock'', True, - 7)]"
  by (simp add: create_order_generations)
     (simp add: generations_db_def upload_parts_stock_def str_strip_def py_isspace_def)

section \<open>Properties of the bulk reconciliation\<close>

lemma str_int_1: "str_int 1 = ''1''"
  by (simp add: str_int_def str_nat.simps digit_char_def)

lemma str_int_2: "str_int 2 = ''2''"
  by (simp add: str_int_def str_nat.simps digit_char_def)

lemma str_int_10: "str_int 10 = ''10''"
  by (simp add: str_int_def str_nat.simps digit_char_def)

lemma sanitize_a1: "sanitize_part_number (Some ''a1'') = ''A1''"
  by (simp add: sanitize_part_number_def str_upper_def upper_char_def str_replace_def
      str_strip_def py_isspace_def)

lemma sanitize_b2: "sanitize_part_number (Some ''b2'') = ''B2''"
  by (simp add: sanitize_part_number_def str_upper_def upper_char_def str_replace_def
      str_strip_def py_isspace_def)

text \<open>
  The loop body on a merged row whose stock row has a description, a stock below the
  requested quantity and a marker that resolves to a row with stock: the row of the
  original part, then the row of the replacement.
\<close>

lemma reconcile_row_split:
  assumes "m_stock m = Some p"
      and "s_description p = Some d"
      and "0 \<le> s_free_stock p"
      and "s_free_stock p < m_qty m"
      and "s_superseded p = Some sp"
      and "str_strip sp \<noteq> []"
      and "lookup_superseded stock sp = Some q"
      and "0 < s_free_stock q"
  shows "reconcile_row stock m =
     [\<lparr>out_sno = SStr (str_int (m_sno m)),
       out_original_part_number = m_original_part_number m,
       out_description = Some d, out_price = s_price p,
       out_available_qty = s_free_stock p, out_requested_qty = m_qty m,
       out_allocated_qty = min (m_qty m) (s_free_stock p),
       out_back_order = m_qty m - min (m_qty m) (s_free_stock p),
       out_no_record = False,
       out_status = (if min (m_qty m) (s_free_stock p) = 0 then ''Out of Stock''
                     else ''Partial - Split''),
       out_allocated_part_number = Some (s_part_number p),
       out_supersedes = Some (str_strip sp)\<rparr>,
      \<lparr>out_sno = SStr (str_int (m_sno m) @ ''.1''),
       out_original_part_number = m_original_part_number m,
       out_description = Some (''(Superseded) '' @ str_of_option (s_description q)),
       out_price = py_float (s_price q),
       out_available_qty = s_free_stock q, out_requested_qty = 0,
       out_allocated_qty = min (m_qty m - min (m_qty m) (s_free_stock p)) (s_free_stock q),
       out_back_order = 0, out_no_record = False,
       out_status = ''Superseded fulfillment'',
       out_allocated_part_number = Some (s_part_number q),
       out_supersedes = None\<rparr>]"
proof -
  have m: "min (m_qty m) (s_free_stock p) = s_free_stock p"
    using assms(4) by simp
  show ?thesis
    using assms unfolding m
    by (simp add: reconcile_row_def Let_def m)
qed

lemma bulk_example_eval:
  "process_bulk_enquiry bulk_example_db
     [\<lparr>b_sno = 1, b_part_number = ''a1'', b_qty = 20\<rparr>] ''parts_stock'' 0 =
   Inr [\<lparr>out_sno = SStr ''1'', out_original_part_number = ''a1'',
         out_description = Some ''Old clip'', out_price = 2,
         out_available_qty = 5, out_requested_qty = 20,
         out_allocated_qty = 5, out_back_order = 15, out_no_record = False,
         out_status = ''Partial - Split'',
         out_allocated_part_number = Some ''A-1'',
         out_supersedes = Some ''B-2''\<rparr>,
      \<lparr>out_sno = SStr ''1.1'', out_original_part_number = ''a1'',
         out_description = Some ''(Superseded) New clip'', out_price = 3,
         out_available_qty = 30, out_requested_qty = 0,
         out_allocated_qty = 15, out_back_order = 0, out_no_record = False,
         out_status = ''Superseded fulfillment'',
         out_allocated_part_number = Some ''B-2'', out_supersedes = None\<rparr>]"
  by (simp add: process_bulk_enquiry_def bulk_example_db_def merge_row_def match_key_def
      reconcile_row_def lookup_superseded_def sanitize_a1 str_int_1 str_replace_def
      str_strip_def py_isspace_def str_of_option_def sort_by_def row_le_def Let_def)
     (simp add: float_eval)

lemma shared_key_eval:
  "process_bulk_enquiry shared_key_db
     [\<lparr>b_sno = 1, b_part_number = ''a1'', b_qty = 20\<rparr>] ''parts_stock'' 0 =
   Inr [\<lparr>out_sno = SStr ''1'', out_original_part_number = ''a1'',
         out_description = Some ''Old clip'', out_price = 2,
         out_available_qty = 5, out_requested_qty = 20,
         out_allocated_qty = 5, out_back_order = 15, out_no_record = False,
         out_status = ''Partial - Split'',
         out_allocated_part_number = Some ''A-1'',
         out_supersedes = Some ''B-2''\<rparr>,
      \<lparr>out_sno = SStr ''1'', out_original_part_number = ''a1'',
         out_description = Some ''Older clip'', out_price = 2,
         out_available_qty = 1, out_requested_qty = 20,
         out_allocated_qty = 1, out_back_order = 19, out_no_record = False,
         out_status = ''Partial - Split'',
         out_allocated_part_number = Some ''A1'',
         out_supersedes = Some ''B-2''\<rparr>,
      \<lparr>out_sno = SStr ''1.1'', out_original_part_number = ''a1'',
         out_description = Some ''(Superseded) New clip'', out_price = 3,
         out_available_qty = 30, out_requested_qty = 0,
         out_allocated_qty = 15, out_back_order = 0, out_no_record = False,
         out_status = ''Superseded fulfillment'',
         out_allocated_part_number = Some ''B-2'', out_supersedes = None\<rparr>,
      \<lparr>out_sno = SStr ''1.1'', out_original_part_number = ''a1'',
         out_description = Some ''(Superseded) New clip'', out_price = 3,
         out_available_qty = 30, out_requested_qty = 0,
         out_allocated_qty = 19, out_back_order = 0, out_no_record = False,
         out_status = ''Superseded fulfillment'',
         out_allocated_part_number = Some ''B-2'', out_supersedes = None\<rparr>]"
  by (simp add: process_bulk_enquiry_def shared_key_db_def merge_row_def match_key_def
      reconcile_row_def lookup_superseded_def sanitize_a1 str_int_1 str_replace_def
      str_strip_def py_isspace_def str_of_option_def sort_by_def row_le_def Let_def)
     (simp add: float_eval)

text \<open>
  C4: the two rows are not always emitted. For the example of the specification (20 units
  of part A-1 with stock 5, superseded by B-2 with stock 30) and a price adjustment of 10
  percent the call raises \<open>TypeError\<close> and emits nothing: the adjustment multiplies the
  decimal prices of the stock frame by a float. With the adjustment 0 the example gives
  the two rows; but where the part numbers A-1 and A1 share their match key, the one
  uploaded row gives four rows, and the first row of the original part is followed by
  the row of another part, not by its \<open>.1\<close> row.
\<close>

theorem bulk_split_not_emitted:
  "process_bulk_enquiry bulk_example_db
     [\<lparr>b_sno = 1, b_part_number = ''a1'', b_qty = 20\<rparr>] ''parts_stock'' 10 = Inl TypeError
   \<and> (case process_bulk_enquiry bulk_example_db
             [\<lparr>b_sno = 1, b_part_number = ''a1'', b_qty = 20\<rparr>] ''parts_stock'' 0 of
        Inl e \<Rightarrow> []
      | Inr out \<Rightarrow> map (\<lambda>r. (out_sno r, out_allocated_part_number r, out_allocated_qty r,
                              out_back_order r, out_status r)) out)
     = [(SStr ''1'', Some ''A-1'', 5, 15, ''Partial - Split''),
        (SStr ''1.1'', Some ''B-2'', 15, 0, ''Superseded fulfillment'')]
   \<and> (case process_bulk_enquiry shared_key_db
             [\<lparr>b_sno = 1, b_part_number = ''a1'', b_qty = 20\<rparr>] ''parts_stock'' 0 of
        Inl e \<Rightarrow> []
      | Inr out \<Rightarrow> map (\<lambda>r. (out_sno r, out_allocated_part_number r, out_allocated_qty r,
                              out_back_order r, out_status r)) out)
     = [(SStr ''1'', Some ''A-1'', 5, 15, ''Partial - Split''),
        (SStr ''1'', Some ''A1'', 1, 19, ''Partial - Split''),
        (SStr ''1.1'', Some ''B-2'', 15, 0, ''Superseded fulfillment''),
        (SStr ''1.1'', Some ''B-2'', 19, 0, ''Superseded fulfillment'')]"
proof -
  have "process_bulk_enquiry bulk_example_db
     [\<lparr>b_sno = 1, b_part_number = ''a1'', b_qty = 20\<rparr>] ''parts_stock'' 10 = Inl TypeError"
    by (simp add: process_bulk_enquiry_def bulk_example_db_def)
  then show ?thesis
    by (simp add: bulk_example_eval shared_key_eval)
qed

text \<open>
  C5: the final order is not the ascending order of the serial numbers. The sort compares
  the strings \<open>str(sno)\<close>, so the row of serial 10 comes before the row of serial 2.
\<close>

theorem bulk_sort_lexicographic:
  "(case process_bulk_enquiry bulk_example_db
           [\<lparr>b_sno = 2, b_part_number = ''a1'', b_qty = 2\<rparr>,
            \<lparr>b_sno = 10, b_part_number = ''b2'', b_qty = 2\<rparr>] ''parts_stock'' 0 of
      Inl e \<Rightarrow> []
    | Inr out \<Rightarrow> map (\<lambda>r. (out_sno r, out_status r, out_allocated_part_number r)) out)
   = [(SStr ''10'', ''Fully Allocated'', Some ''B-2''),
      (SStr ''2'', ''Fully Allocated'', Some ''A-1'')]"
  by (simp add: process_bulk_enquiry_def bulk_example_db_def merge_row_def match_key_def
      reconcile_row_def lookup_superseded_def sanitize_a1 sanitize_b2 str_int_2 str_int_10
      str_replace_def
      str_strip_def py_isspace_def str_of_option_def sort_by_def row_le_def Let_def)

text \<open>
  C6: with no active stock row of the stock type (here \<open>HBD_stock\<close>), no row is
  emitted for a part number that matches nothing: the merged frame has no
  \<open>free_stock\<close> column and the call raises \<open>KeyError\<close>.
\<close>

theorem bulk_empty_catalog_error:
  "process_bulk_enquiry bulk_example_db
     [\<lparr>b_sno = 1, b_part_number = ''a1'', b_qty = 20\<rparr>] ''HBD_stock'' 0
   = Inl (KeyError ''free_stock'')"
  by (simp add: process_bulk_enquiry_def bulk_example_db_def)

text \<open>
  Once the stock frame has its columns (at least one active stock row), an uploaded row
  that matches no stock row is merged into one row without stock, for which the loop emits
  exactly one "Invalid Part" row.
\<close>

lemma unmatched_row_invalid_part:
  assumes "filter (\<lambda>r. match_key r =
             str_replace (CHR ''-'') [] (sanitize_part_number (Some (b_part_number b)))) stock = []"
  shows "concat (map (reconcile_row stock) (merge_row stock b)) =
     [\<lparr>out_sno = SNum (b_sno b), out_original_part_number = b_part_number b,
       out_description = None, out_price = 0, out_available_qty = 0,
       out_requested_qty = b_qty b, out_allocated_qty = 0, out_back_order = b_qty b,
       out_no_record = True, out_status = ''Invalid Part'',
       out_allocated_part_number = None, out_supersedes = None\<rparr>]"
  using assms by (simp add: merge_row_def reconcile_row_def Let_def)

section \<open>Properties of the catalog search\<close>

lemma check_supersession_seen:
  "seen \<subseteq> snd (check_supersession table st adj seen cur depth)"
proof (induction table st adj seen cur depth rule: check_supersession.induct)
  case (1 table st adj seen cur depth)
  show ?case
  proof (cases "depth > 5")
    case True
    then show ?thesis by (simp add: check_supersession.simps)
  next
    case d: False
    show ?thesis
    proof (cases "s_superseded cur")
      case None
      with d show ?thesis by (simp add: check_supersession.simps)
    next
      case (Some marker)
      show ?thesis
      proof (cases "str_strip marker = []")
        case True
        with d Some show ?thesis by (simp add: check_supersession.simps)
      next
        case ne: False
        let ?rows = "filter (\<lambda>r. s_part_number r = str_strip marker
                                 \<and> s_stock_type r = st \<and> s_is_active r) table"
        show ?thesis
        proof (cases "find (\<lambda>r. s_part_number r \<notin> seen) ?rows")
          case None
          with d Some ne show ?thesis by (simp add: check_supersession.simps)
        next
          case sd: (Some sd)
          have "insert (s_part_number sd) seen
                  \<subseteq> snd (check_supersession table st adj (insert (s_part_number sd) seen)
                          (adjust_price adj sd) (Suc depth))"
            using "1.IH" [OF d Some ne refl refl sd refl refl] .
          with d Some ne sd show ?thesis
            by (simp add: check_supersession.simps [of table st adj seen cur depth] Let_def)
        qed
      qed
    qed
  qed
qed

lemma adjust_price_part_number: "s_part_number (adjust_price adj r) = s_part_number r"
  by (simp add: adjust_price_def)

lemma search_loop_inv:
  assumes "r \<in> set (search_loop table st adj rows seen)"
  shows "s_part_number (po_row r) \<notin> seen
       \<and> (\<exists>base. find (\<lambda>x. s_part_number x = s_part_number (po_row r)) rows = Some base
                 \<and> po_row r = adjust_price adj base)"
  using assms
proof (induction rows arbitrary: seen)
  case Nil
  then show ?case by simp
next
  case (Cons row rows)
  show ?case
  proof (cases "s_part_number row \<in> seen")
    case True
    with Cons.prems have "r \<in> set (search_loop table st adj rows seen)" by simp
    from Cons.IH [OF this] True show ?thesis by auto
  next
    case False
    let ?seen1 = "insert (s_part_number row) seen"
    let ?sup = "check_supersession table st adj ?seen1 (adjust_price adj row) 0"
    from Cons.prems False
    consider "r = PartObj (adjust_price adj row) False (fst ?sup)"
      | "r \<in> set (search_loop table st adj rows (snd ?sup))"
      by (auto simp: Let_def)
    then show ?thesis
    proof cases
      case 1
      with False show ?thesis by (simp add: adjust_price_part_number)
    next
      case 2
      have sub: "?seen1 \<subseteq> snd ?sup" by (rule check_supersession_seen)
      from Cons.IH [OF 2] sub show ?thesis by auto
    qed
  qed
qed

lemma search_loop_distinct:
  "distinct (map (\<lambda>r. s_part_number (po_row r)) (search_loop table st adj rows seen))"
proof (induction rows arbitrary: seen)
  case Nil
  then show ?case by simp
next
  case (Cons row rows)
  show ?case
  proof (cases "s_part_number row \<in> seen")
    case True
    then show ?thesis using Cons.IH by simp
  next
    case False
    let ?seen1 = "insert (s_part_number row) seen"
    let ?sup = "check_supersession table st adj ?seen1 (adjust_price adj row) 0"
    have sub: "?seen1 \<subseteq> snd ?sup" by (rule check_supersession_seen)
    have neq: "s_part_number (po_row r) \<noteq> s_part_number row"
      if "r \<in> set (search_loop table st adj rows (snd ?sup))" for r
      using search_loop_inv [OF that] sub by auto
    have "s_part_number row \<notin>
        (\<lambda>r. s_part_number (po_row r)) ` set (search_loop table st adj rows (snd ?sup))"
    proof
      assume "s_part_number row \<in>
        (\<lambda>r. s_part_number (po_row r)) ` set (search_loop table st adj rows (snd ?sup))"
      then obtain r where "r \<in> set (search_loop table st adj rows (snd ?sup))"
          "s_part_number (po_row r) = s_part_number row"
        by (metis imageE)
      with neq show False by blast
    qed
    then show ?thesis
      using False Cons.IH [of "snd ?sup"] by (simp add: Let_def adjust_price_part_number)
  qed
qed

lemma search_loop_length:
  "length (search_loop table st adj rows seen) \<le> length rows"
proof (induction rows arbitrary: seen)
  case Nil
  then show ?case by simp
next
  case (Cons row rows)
  show ?case
    using Cons.IH [of seen]
      Cons.IH [of "snd (check_supersession table st adj (insert (s_part_number row) seen)
                           (adjust_price adj row) 0)"]
    by (simp add: Let_def le_SucI)
qed

lemma order_key_adjust: "order_key prefix (adjust_price adj r) = order_key prefix r"
  by (simp add: order_key_def exact_rank_def adjust_price_def)

lemma search_loop_sorted:
  assumes "sorted (map (order_key prefix) rows)"
  shows "sorted (map (\<lambda>r. order_key prefix (po_row r)) (search_loop table st adj rows seen))"
  using assms
proof (induction rows arbitrary: seen)
  case Nil
  then show ?case by simp
next
  case (Cons row rows)
  then have tl_sorted: "sorted (map (order_key prefix) rows)"
    and hd_le: "\<forall>x\<in>set rows. order_key prefix row \<le> order_key prefix x"
    by auto
  show ?case
  proof (cases "s_part_number row \<in> seen")
    case True
    then show ?thesis using Cons.IH [OF tl_sorted] by simp
  next
    case False
    let ?sup = "check_supersession table st adj (insert (s_part_number row) seen)
                  (adjust_price adj row) 0"
    have "order_key prefix row \<le> order_key prefix (po_row r)"
      if "r \<in> set (search_loop table st adj rows (snd ?sup))" for r
    proof -
      from search_loop_inv [OF that] obtain base where
        b: "find (\<lambda>x. s_part_number x = s_part_number (po_row r)) rows = Some base"
           "po_row r = adjust_price adj base"
        by blast
      from b(1) have "base \<in> set rows"
        by (auto simp: find_Some_iff)
      with hd_le b(2) show ?thesis by (simp add: order_key_adjust)
    qed
    then show ?thesis
      using False Cons.IH [OF tl_sorted, of "snd ?sup"]
      by (auto simp: Let_def order_key_adjust)
  qed
qed

lemma select_parts_like_sorted:
  "sorted (map (order_key prefix) (select_parts_like table prefix st))"
  by (simp add: select_parts_like_def Let_def take_map [symmetric] sorted_wrt_take)

lemma select_parts_like_length: "length (select_parts_like table prefix st) \<le> 50"
  by (simp add: select_parts_like_def Let_def)

text \<open>
  What the loop guarantees on the rows of the query: at most 50 results, pairwise
  different part numbers, each result from the first row of its part number, the order of
  the rows (the two keys of the query's \<open>ORDER BY\<close>), and the adjusted price.
\<close>

lemma get_parts_like_structure:
  "length (get_parts_like d prefix st adj) \<le> 50
   \<and> distinct (map (\<lambda>r. s_part_number (po_row r)) (get_parts_like d prefix st adj))
   \<and> sorted (map (\<lambda>r. order_key prefix (po_row r)) (get_parts_like d prefix st adj))
   \<and> (\<forall>r\<in>set (get_parts_like d prefix st adj).
        \<exists>base. find (\<lambda>x. s_part_number x = s_part_number (po_row r))
                  (select_parts_like (parts_stock d) prefix st) = Some base
              \<and> po_row r = adjust_price adj base)"
proof -
  have a: "length (get_parts_like d prefix st adj) \<le> 50"
    using search_loop_length [of "parts_stock d" st adj "select_parts_like (parts_stock d) prefix st" "{}"]
      select_parts_like_length [of "parts_stock d" prefix st]
    by (simp add: get_parts_like_def)
  have b: "distinct (map (\<lambda>r. s_part_number (po_row r)) (get_parts_like d prefix st adj))"
    by (simp add: get_parts_like_def search_loop_distinct)
  have c: "sorted (map (\<lambda>r. order_key prefix (po_row r)) (get_parts_like d prefix st adj))"
    unfolding get_parts_like_def
    by (rule search_loop_sorted) (rule select_parts_like_sorted)
  have e: "\<forall>r\<in>set (get_parts_like d prefix st adj).
        \<exists>base. find (\<lambda>x. s_part_number x = s_part_number (po_row r))
                  (select_parts_like (parts_stock d) prefix st) = Some base
              \<and> po_row r = adjust_price adj base"
    unfolding get_parts_like_def
    using search_loop_inv [of _ "parts_stock d" st adj] by auto
  from a b c e show ?thesis by blast
qed

lemma adjust_price_zero:
  "adjust_price 0 \<lparr>s_part_number = pn, s_description = ds, s_free_stock = fs, s_price = 2,
      s_stock_type = st, s_is_active = ac, s_superseded = su\<rparr>
   = \<lparr>s_part_number = pn, s_description = ds, s_free_stock = fs, s_price = 2,
      s_stock_type = st, s_is_active = ac, s_superseded = su\<rparr>"
  "adjust_price 0 \<lparr>s_part_number = pn, s_description = ds, s_free_stock = fs, s_price = 3,
      s_stock_type = st, s_is_active = ac, s_superseded = su\<rparr>
   = \<lparr>s_part_number = pn, s_description = ds, s_free_stock = fs, s_price = 3,
      s_stock_type = st, s_is_active = ac, s_superseded = su\<rparr>"
  by (simp_all add: adjust_price_def) (simp_all add: float_eval)

lemma sanitize_hyphen: "sanitize_part_number (Some ''A-1'') = ''A-1''"
  by (simp add: sanitize_part_number_def str_upper_def upper_char_def str_replace_def
      str_strip_def py_isspace_def)

lemma hyphen_search_select:
  "select_parts_like (parts_stock hyphen_search_db) ''A-1'' ''parts_stock''
     = rev (parts_stock hyphen_search_db)"
  by (simp add: select_parts_like_def hyphen_search_db_def cleaned_prefix_def sanitize_hyphen
      str_replace_def str_strip_def py_isspace_def ilike_def ilike_null_def lower_char_def
      order_key_def exact_rank_def Let_def)

text \<open>
  C7: exact-prefix matches on the normalized query do not always come first. For the
  query A-1 the normalized query is A-1; part A-1 starts with it and part A10 does not,
  yet the search returns A10 before A-1: the rank of the \<open>ORDER BY\<close> compares the
  part numbers with the query stripped of its hyphens.
\<close>

theorem search_ranks_exact_match_last:
  "map (\<lambda>r. s_part_number (po_row r))
     (get_parts_like hyphen_search_db ''A-1'' ''parts_stock'' 0) = [''A10'', ''A-1'']
   \<and> sanitize_part_number (Some ''A-1'') = ''A-1''
   \<and> ilike ''A-1'' (sanitize_part_number (Some ''A-1'') @ ''%'')
   \<and> \<not> ilike ''A10'' (sanitize_part_number (Some ''A-1'') @ ''%'')"
proof -
  have "get_parts_like hyphen_search_db ''A-1'' ''parts_stock'' 0 =
      map (\<lambda>r. PartObj r False None) (rev (parts_stock hyphen_search_db))"
    unfolding get_parts_like_def hyphen_search_select
    by (simp add: hyphen_search_db_def check_supersession.simps adjust_price_zero Let_def)
  then have "map (\<lambda>r. s_part_number (po_row r))
     (get_parts_like hyphen_search_db ''A-1'' ''parts_stock'' 0) = [''A10'', ''A-1'']"
    by (simp add: hyphen_search_db_def)
  then show ?thesis
    by (simp add: sanitize_hyphen ilike_def lower_char_def)
qed

section \<open>The stock invariant on tables with one row per part and stock type\<close>

text \<open>
  Where every pair of part number and stock type has one row only, the row that
  \<open>create_order\<close> reads is the row it decrements, and the stock stays non-negative. A
  reversal only adds quantities that are positive, whatever the table.
\<close>

lemma update_free_stock_keys:
  "map (\<lambda>r. (s_part_number r, s_stock_type r)) (update_free_stock pn st delta rows)
     = map (\<lambda>r. (s_part_number r, s_stock_type r)) rows"
  by (induction rows) (simp_all add: update_free_stock_def)

lemma find_unique_key:
  assumes "stock_keys_unique rows" and "r \<in> set rows" and "stock_match pn st r"
  shows "find (stock_match pn st) rows = Some r"
  using assms
proof (induction rows)
  case Nil
  then show ?case by simp
next
  case (Cons x rows)
  show ?case
  proof (cases "stock_match pn st x")
    case True
    have "x = r"
    proof (rule ccontr)
      assume "x \<noteq> r"
      with Cons.prems(2) have "r \<in> set rows" by simp
      then have "(s_part_number r, s_stock_type r)
                   \<in> set (map (\<lambda>r. (s_part_number r, s_stock_type r)) rows)"
        by simp
      with Cons.prems(1,3) True show False
        by (simp add: stock_keys_unique_def stock_match_def)
    qed
    with True show ?thesis by simp
  next
    case False
    with Cons.prems have "r \<in> set rows" "stock_keys_unique rows"
      by (auto simp: stock_keys_unique_def)
    with Cons.IH Cons.prems(3) False show ?thesis by simp
  qed
qed

lemma commit_item_nonneg:
  assumes "stock_keys_unique (parts_stock (fst acc))" and "stock_nonneg (parts_stock (fst acc))"
  shows "stock_keys_unique (parts_stock (fst (commit_item oid st acc it)))
       \<and> stock_nonneg (parts_stock (fst (commit_item oid st acc it)))"
proof -
  obtain s t where acc: "acc = (s, t)" by (cases acc)
  let ?pn = "r_part_number it"
  let ?cur = "case find (stock_match ?pn st) (parts_stock s) of
                None \<Rightarrow> 0 | Some r \<Rightarrow> s_free_stock r"
  let ?alloc = "min (r_qty it) ?cur"
  have ps: "parts_stock (fst (commit_item oid st acc it)) =
      map (\<lambda>r. if stock_match ?pn st r \<and> 0 < ?alloc
                then r\<lparr>s_free_stock := s_free_stock r - ?alloc\<rparr> else r) (parts_stock s)"
    by (simp add: acc commit_item_step Let_def)
  have keys: "map (\<lambda>r. (s_part_number r, s_stock_type r))
        (parts_stock (fst (commit_item oid st acc it)))
      = map (\<lambda>r. (s_part_number r, s_stock_type r)) (parts_stock s)"
    unfolding ps by (induction "parts_stock s") simp_all
  have nn: "0 \<le> s_free_stock r - ?alloc"
    if "r \<in> set (parts_stock s)" "stock_match ?pn st r" for r
  proof -
    have "find (stock_match ?pn st) (parts_stock s) = Some r"
      using find_unique_key [OF _ that] assms(1) by (simp add: acc)
    then show ?thesis by simp
  qed
  have "stock_nonneg (parts_stock (fst (commit_item oid st acc it)))"
    unfolding ps stock_nonneg_def list_all_iff
    using assms(2) nn by (auto simp: acc stock_nonneg_def list_all_iff)
  with keys assms(1) show ?thesis
    by (simp add: stock_keys_unique_def acc)
qed

lemma foldl_commit_nonneg:
  assumes "stock_keys_unique (parts_stock (fst acc))" and "stock_nonneg (parts_stock (fst acc))"
  shows "stock_keys_unique (parts_stock (fst (foldl (commit_item oid st) acc its)))
       \<and> stock_nonneg (parts_stock (fst (foldl (commit_item oid st) acc its)))"
  using assms
proof (induction its arbitrary: acc)
  case Nil
  then show ?case by simp
next
  case (Cons it its)
  from commit_item_nonneg [OF Cons.prems] Cons.IH show ?case by simp
qed

lemma create_order_keeps_stock_nonneg:
  assumes "stock_keys_unique (parts_stock d)" and "stock_nonneg (parts_stock d)"
  shows "stock_keys_unique (parts_stock (fst (create_order d uid items st)))
       \<and> stock_nonneg (parts_stock (fst (create_order d uid items st)))"
proof -
  let ?s0 = "(d\<lparr>orders := orders d @
            [\<lparr>o_order_id = next_order_id d, o_user_id = uid, o_total_price = 0,
              o_order_status = ''Pending'', o_stock_type = st\<rparr>],
          next_order_id := Suc (next_order_id d)\<rparr>, 0::rat)"
  have "parts_stock (fst (create_order d uid items st))
          = parts_stock (fst (foldl (commit_item (next_order_id d) st) ?s0 items))"
    by (simp add: create_order_def Let_def)
  moreover have "stock_keys_unique (parts_stock (fst ?s0))" "stock_nonneg (parts_stock (fst ?s0))"
    using assms by simp_all
  ultimately show ?thesis
    using foldl_commit_nonneg [of ?s0 "next_order_id d" st items] by simp
qed

lemma restored_qty_nonneg: "0 \<le> restored_qty d oid pn"
  unfolding restored_qty_def by (rule sum_list_nonneg) auto

lemma restore_keeps_stock_nonneg:
  assumes "stock_nonneg (parts_stock d)"
  shows "stock_nonneg (parts_stock (restore_stock_from_order d oid))"
  using assms restored_qty_nonneg [of d oid]
  by (auto simp: restore_stock_closed_form stock_nonneg_def list_all_iff add_nonneg_nonneg
      split: option.split)

lemma update_order_status_keeps_stock_nonneg:
  assumes "stock_nonneg (parts_stock d)"
  shows "stock_nonneg (parts_stock (update_order_status d oid status))"
  using assms restore_keeps_stock_nonneg [OF assms, of oid]
  by (simp add: update_order_status_stock)

lemma delete_order_keeps_stock_nonneg:
  assumes "stock_nonneg (parts_stock d)"
  shows "stock_nonneg (parts_stock (delete_order d oid))"
  using restore_keeps_stock_nonneg [OF assms, of oid]
  by (simp add: delete_order_eq)

end
